theory Spec2Isabelle
  imports Main "HOL-Library.Word"
begin

section \<open>Data model of the lessons domain\<close>

text \<open>
  A JavaScript string is a sequence of UTF-16 code units; \<open>String.prototype.length\<close>
  counts code units. Free text supplied by callers (titles, descriptions, search
  queries) is modelled that way. Identifiers, field names and messages written in the
  source as ASCII literals are plain \<open>string\<close>s: only their equality is used.
\<close>

type_synonym js_string = "16 word list"

text \<open>\<open>UserSession.role\<close> and \<open>Purchase.status\<close> (shared types).\<close>

datatype role = STUDENT | INSTRUCTOR | ADMIN

datatype purchase_status = PENDING | COMPLETED | FAILED | REFUNDED

text \<open>
  \<open>UserSession\<close>: the lessons service reads \<open>uid\<close> and \<open>role\<close> only; the
  remaining fields (email, name, Stripe ids) are not modelled.
\<close>

record user_session =
  uid :: string
  role :: role

text \<open>
  The error classes of \<open>lessons/errors.ts\<close>, each carrying its constructor
  arguments, the generic \<open>AppError\<close> (status, message and, where one is given, code)
  and the plain \<open>Error\<close> the ORM throws on a violated constraint, which the error
  handler answers with status 500.
\<close>

datatype app_error =
    AppError int string "string option"
  | LessonNotFoundError string
  | LessonNotPublishedError string
  | LessonPermissionDeniedError string string
  | LessonValidationError string string
  | LessonTitleConflictError js_string string
  | LessonHasPurchasesError string nat
  | InvalidLessonPriceError int
  | DatabaseError

fun statusCode :: "app_error \<Rightarrow> int" where
  "statusCode (AppError s m c) = s"
| "statusCode (LessonNotFoundError lessonId) = 404"
| "statusCode (LessonNotPublishedError lessonId) = 403"
| "statusCode (LessonPermissionDeniedError lessonId userId) = 403"
| "statusCode (LessonValidationError field msg) = 400"
| "statusCode (LessonTitleConflictError title instructorId) = 409"
| "statusCode (LessonHasPurchasesError lessonId purchaseCount) = 409"
| "statusCode (InvalidLessonPriceError price) = 400"
| "statusCode DatabaseError = 500"

fun errorCode :: "app_error \<Rightarrow> string option" where
  "errorCode (AppError s m c) = c"
| "errorCode (LessonNotFoundError lessonId) = Some ''LESSON_NOT_FOUND''"
| "errorCode (LessonNotPublishedError lessonId) = Some ''LESSON_NOT_PUBLISHED''"
| "errorCode (LessonPermissionDeniedError lessonId userId) = Some ''LESSON_PERMISSION_DENIED''"
| "errorCode (LessonValidationError field msg) = Some ''LESSON_VALIDATION_ERROR''"
| "errorCode (LessonTitleConflictError title instructorId) = Some ''LESSON_TITLE_CONFLICT''"
| "errorCode (LessonHasPurchasesError lessonId purchaseCount) = Some ''LESSON_HAS_PURCHASES''"
| "errorCode (InvalidLessonPriceError price) = Some ''INVALID_LESSON_PRICE''"
| "errorCode DatabaseError = None"

text \<open>
  \<open>CreateLessonInput\<close>. The declared type of \<open>title\<close> is \<open>string\<close>; the guard
  \<open>!input.title\<close> of the service also catches \<open>undefined\<close>, which is \<open>None\<close>
  here. Prices are amounts in cents, integers as in the request schema
  (\<open>z.number().int()\<close>); the fractional values and the \<open>NaN\<close> of the JavaScript
  number type are outside the model. The \<open>instructorId\<close> of the input is not read:
  the service stores the caller's \<open>uid\<close>.
\<close>

record create_lesson_input =
  cli_title :: "js_string option"
  cli_description :: "js_string option"
  cli_price :: int
  cli_category :: "js_string option"

section \<open>Input validation (\<open>LessonService.validateLessonInput\<close>, \<open>validatePrice\<close>)\<close>

text \<open>
  \<open>String.prototype.trim\<close> removes the ECMAScript \<open>WhiteSpace\<close> and
  \<open>LineTerminator\<close> code points from both ends.
\<close>

definition js_is_whitespace :: "16 word \<Rightarrow> bool" where
  "js_is_whitespace c \<longleftrightarrow>
     c = 0x0009 \<or> c = 0x000A \<or> c = 0x000B \<or> c = 0x000C \<or> c = 0x000D \<or> c = 0x0020
   \<or> c = 0x00A0 \<or> c = 0x1680 \<or> (0x2000 \<le> c \<and> c \<le> 0x200A)
   \<or> c = 0x2028 \<or> c = 0x2029 \<or> c = 0x202F \<or> c = 0x205F \<or> c = 0x3000 \<or> c = 0xFEFF"

definition js_trim :: "js_string \<Rightarrow> js_string" where
  "js_trim s = rev (dropWhile js_is_whitespace (rev (dropWhile js_is_whitespace s)))"

definition validatePrice :: "int \<Rightarrow> app_error + unit" where
  "validatePrice price =
     (if price < 100 \<or> price > 99999 then Inl (InvalidLessonPriceError price) else Inr ())"

definition validateLessonInput :: "create_lesson_input \<Rightarrow> app_error + unit" where
  "validateLessonInput input =
     (case cli_title input of
        None \<Rightarrow> Inl (LessonValidationError ''title'' ''Title is required'')
      | Some title \<Rightarrow>
          if title = [] \<or> length (js_trim title) = 0 then
            Inl (LessonValidationError ''title'' ''Title is required'')
          else if length title > 200 then
            Inl (LessonValidationError ''title'' ''Title must be 200 characters or less'')
          else if (case cli_description input of
                     None \<Rightarrow> False
                   | Some description \<Rightarrow> description \<noteq> [] \<and> length description > 2000) then
            Inl (LessonValidationError ''description''
                   ''Description must be 2000 characters or less'')
          else validatePrice (cli_price input))"

section \<open>The database\<close>

text \<open>
  The tables the lessons service reads and writes, each a list of rows. The ORM and the
  schema are outside the service: \<open>findUnique\<close> is the first row with the key,
  \<open>findMany\<close> the rows matching the condition, \<open>create\<close> adds a row under a key
  not yet taken, \<open>delete\<close> removes the row with the key; \<open>create\<close> and \<open>delete\<close>
  throw when the key is taken or missing. Users, tags and timestamps are not modelled.
\<close>

record lesson_row =
  lesson_id :: string
  lesson_title :: js_string
  lesson_description :: "js_string option"
  lesson_price :: int
  lesson_category :: "js_string option"
  lesson_instructorId :: string
  lesson_published :: bool
  lesson_thumbnailUrl :: "js_string option"

record purchase_row =
  purchase_id :: string
  purchase_userId :: string
  purchase_lessonId :: string
  purchase_amount :: int
  purchase_status :: purchase_status

record review_row =
  review_id :: string
  review_userId :: string
  review_lessonId :: string
  review_rating :: int
  review_comment :: "js_string option"

record database =
  lessons :: "lesson_row list"
  purchases :: "purchase_row list"
  reviews :: "review_row list"

section \<open>The repository (\<open>LessonRepository\<close>)\<close>

record lesson_query_options =
  includePurchases :: bool
  includeReviews :: bool

record lesson_with_relations =
  lwr_lesson :: lesson_row
  lwr_purchases :: "purchase_row list option"
  lwr_reviews :: "review_row list option"

text \<open>
  \<open>findById\<close>: the lesson with its purchases and reviews when asked for. The included
  purchases are all the purchases of the lesson: the \<open>include\<close> clause has no
  condition on their status. A relation not asked for is \<open>undefined\<close> (\<open>None\<close>).
\<close>

definition findById :: "string \<Rightarrow> lesson_query_options \<Rightarrow> database \<Rightarrow> lesson_with_relations option" where
  "findById lessonId options db =
     (case find (\<lambda>l. lesson_id l = lessonId) (lessons db) of
        None \<Rightarrow> None
      | Some l \<Rightarrow>
          Some \<lparr> lwr_lesson = l,
                 lwr_purchases =
                   (if includePurchases options
                    then Some (filter (\<lambda>p. purchase_lessonId p = lessonId) (purchases db))
                    else None),
                 lwr_reviews =
                   (if includeReviews options
                    then Some (filter (\<lambda>r. review_lessonId r = lessonId) (reviews db))
                    else None) \<rparr>)"

record lesson_create_data =
  lcd_title :: js_string
  lcd_description :: "js_string option"
  lcd_price :: int
  lcd_category :: "js_string option"
  lcd_instructorId :: string
  lcd_published :: "bool option"
  lcd_thumbnailUrl :: "js_string option"

text \<open>\<open>createLesson\<close> of the repository; \<open>newId\<close> is the key the database generates.\<close>

definition repository_createLesson ::
    "lesson_create_data \<Rightarrow> string \<Rightarrow> database \<Rightarrow> app_error + (lesson_row \<times> database)" where
  "repository_createLesson data newId db =
     (case find (\<lambda>l. lesson_id l = newId) (lessons db) of
        Some l \<Rightarrow> Inl DatabaseError
      | None \<Rightarrow>
          (let row = \<lparr> lesson_id = newId,
                       lesson_title = lcd_title data,
                       lesson_description = lcd_description data,
                       lesson_price = lcd_price data,
                       lesson_category = lcd_category data,
                       lesson_instructorId = lcd_instructorId data,
                       lesson_published = (case lcd_published data of None \<Rightarrow> False | Some b \<Rightarrow> b),
                       lesson_thumbnailUrl = lcd_thumbnailUrl data \<rparr>
           in Inr (row, db\<lparr>lessons := lessons db @ [row]\<rparr>)))"

text \<open>\<open>deleteLesson\<close> of the repository: the deleted row and the database without it.\<close>

definition repository_deleteLesson ::
    "string \<Rightarrow> database \<Rightarrow> app_error + (lesson_row \<times> database)" where
  "repository_deleteLesson lessonId db =
     (case find (\<lambda>l. lesson_id l = lessonId) (lessons db) of
        None \<Rightarrow> Inl DatabaseError
      | Some l \<Rightarrow> Inr (l, db\<lparr>lessons := filter (\<lambda>l. lesson_id l \<noteq> lessonId) (lessons db)\<rparr>))"

text \<open>
  \<open>getLessonStats\<close>: purchases are read with \<open>status: 'COMPLETED'\<close> in the query. The
  average rating, a floating-point quotient, is left out.
\<close>

record lesson_stats =
  purchaseCount :: nat
  totalRevenue :: int
  reviewCount :: nat

definition getLessonStats :: "string \<Rightarrow> database \<Rightarrow> lesson_stats" where
  "getLessonStats lessonId db =
     (let ps = filter (\<lambda>p. purchase_lessonId p = lessonId \<and> purchase_status p = COMPLETED)
                 (purchases db);
          rs = filter (\<lambda>r. review_lessonId r = lessonId) (reviews db)
      in \<lparr> purchaseCount = length ps,
           totalRevenue = foldl (\<lambda>sum p. sum + purchase_amount p) 0 ps,
           reviewCount = length rs \<rparr>)"

subsection \<open>Search queries\<close>

datatype sort_direction = Asc | Desc

text \<open>
  \<open>LessonSortOptions\<close>. The field is a string: the router passes its own keys
  (\<open>rating\<close>, \<open>purchases\<close>) through, and the type itself allows \<open>purchaseCount\<close> and
  \<open>averageRating\<close>. \<open>None\<close> is an options object without the property.
\<close>

record lesson_sort_options =
  sort_field :: "string option"
  sort_direction :: sort_direction

record lesson_search_filters =
  lsf_query :: "js_string option"
  lsf_category :: "js_string option"
  lsf_minPrice :: "int option"
  lsf_maxPrice :: "int option"
  lsf_instructorId :: "string option"
  lsf_published :: "bool option"
  lsf_limit :: "int option"
  lsf_offset :: "int option"

text \<open>JavaScript truthiness of an optional string and of an optional number.\<close>

definition truthy_string :: "'a list option \<Rightarrow> bool" where
  "truthy_string s = (case s of None \<Rightarrow> False | Some cs \<Rightarrow> cs \<noteq> [])"

definition truthy_number :: "int option \<Rightarrow> bool" where
  "truthy_number n = (case n of None \<Rightarrow> False | Some k \<Rightarrow> k \<noteq> 0)"

record price_filter =
  gte :: "int option"
  lte :: "int option"

text \<open>
  The \<open>where\<close> clause handed to the ORM; a property left out of the object is
  \<open>None\<close>. \<open>where_contains\<close> is the text of the three-way case-insensitive \<open>OR\<close>.
\<close>

record lesson_where_input =
  where_contains :: "js_string option"
  where_category :: "js_string option"
  where_instructorId :: "string option"
  where_price :: "price_filter option"
  where_published :: "bool option"

text \<open>The clause \<open>searchLessons\<close> and \<open>countLessons\<close> both build, word for word.\<close>

definition lessonWhere :: "lesson_search_filters \<Rightarrow> lesson_where_input" where
  "lessonWhere filters =
     \<lparr> where_contains = (if truthy_string (lsf_query filters) then lsf_query filters else None),
       where_category = (if truthy_string (lsf_category filters) then lsf_category filters else None),
       where_instructorId =
         (if truthy_string (lsf_instructorId filters) then lsf_instructorId filters else None),
       where_price =
         (if truthy_number (lsf_minPrice filters) \<or> truthy_number (lsf_maxPrice filters)
          then Some \<lparr> gte = (if truthy_number (lsf_minPrice filters) then lsf_minPrice filters else None),
                      lte = (if truthy_number (lsf_maxPrice filters) then lsf_maxPrice filters else None) \<rparr>
          else None),
       where_published = lsf_published filters \<rparr>"

text \<open>\<open>buildOrderBy\<close>: the one-property object \<open>{ key: direction }\<close> as a pair.\<close>

definition buildOrderBy :: "lesson_sort_options \<Rightarrow> string \<times> sort_direction" where
  "buildOrderBy sortOpts =
     (if sort_field sortOpts = Some ''price'' then (''price'', sort_direction sortOpts)
      else if sort_field sortOpts = Some ''title'' then (''title'', sort_direction sortOpts)
      else (''createdAt'', sort_direction sortOpts))"

record find_many_args =
  fm_where :: lesson_where_input
  fm_orderBy :: "string \<times> sort_direction"
  fm_take :: int
  fm_skip :: int

text \<open>The queries of the repository's \<open>searchLessons\<close> and \<open>countLessons\<close>.\<close>

definition repository_searchLessons :: "lesson_search_filters \<Rightarrow> lesson_sort_options \<Rightarrow> find_many_args" where
  "repository_searchLessons filters sortOpts =
     \<lparr> fm_where = lessonWhere filters,
       fm_orderBy = buildOrderBy sortOpts,
       fm_take = (case lsf_limit filters of None \<Rightarrow> 20 | Some k \<Rightarrow> if k = 0 then 20 else k),
       fm_skip = (case lsf_offset filters of None \<Rightarrow> 0 | Some k \<Rightarrow> k) \<rparr>"

definition repository_countLessons :: "lesson_search_filters \<Rightarrow> lesson_where_input" where
  "repository_countLessons filters = lessonWhere filters"

section \<open>The service (\<open>LessonService\<close>)\<close>

text \<open>
  Every operation that writes returns its outcome together with the database after
  it; an exception leaves the database as it was. In \<open>createLesson\<close> the title has
  passed validation when the row is written; a row without a title, which the column
  does not admit, is the ORM's error.
\<close>

definition createLesson ::
    "create_lesson_input \<Rightarrow> user_session \<Rightarrow> string \<Rightarrow> database \<Rightarrow> (app_error + lesson_row) \<times> database" where
  "createLesson input instructorSession newId db =
     (case validateLessonInput input of
        Inl e \<Rightarrow> (Inl e, db)
      | Inr u \<Rightarrow>
          if role instructorSession \<noteq> INSTRUCTOR then
            (Inl (LessonPermissionDeniedError ''create'' (uid instructorSession)), db)
          else
            (case cli_title input of
               None \<Rightarrow> (Inl DatabaseError, db)
             | Some title \<Rightarrow>
                 (let lessonData = \<lparr> lcd_title = title,
                                     lcd_description = cli_description input,
                                     lcd_price = cli_price input,
                                     lcd_category = cli_category input,
                                     lcd_instructorId = uid instructorSession,
                                     lcd_published = None,
                                     lcd_thumbnailUrl = None \<rparr>
                  in case repository_createLesson lessonData newId db of
                       Inl e \<Rightarrow> (Inl e, db)
                     | Inr (rawLesson, db') \<Rightarrow> (Inr rawLesson, db'))))"

record user_review =
  ur_id :: string
  ur_rating :: int
  ur_comment :: "js_string option"

record user_context =
  isPurchased :: bool
  hasAccess :: bool
  userReview :: "user_review option"

definition buildUserContext :: "string \<Rightarrow> user_session \<Rightarrow> database \<Rightarrow> user_context" where
  "buildUserContext lessonId userSession db =
     (let purchase = find (\<lambda>p. purchase_userId p = uid userSession \<and> purchase_lessonId p = lessonId)
                       (purchases db);
          review = find (\<lambda>r. review_userId r = uid userSession \<and> review_lessonId r = lessonId)
                     (reviews db);
          isPurchased = (case purchase of None \<Rightarrow> False | Some p \<Rightarrow> purchase_status p = COMPLETED)
      in \<lparr> isPurchased = isPurchased,
           hasAccess = isPurchased,
           userReview = map_option (\<lambda>r. \<lparr> ur_id = review_id r,
                                           ur_rating = review_rating r,
                                           ur_comment = review_comment r \<rparr>) review \<rparr>)"

record lesson_with_user_context =
  lwuc_lesson :: lesson_row
  lwuc_stats :: lesson_stats
  lwuc_userContext :: "user_context option"

definition getLessonById ::
    "string \<Rightarrow> user_session option \<Rightarrow> database \<Rightarrow> app_error + lesson_with_user_context" where
  "getLessonById lessonId userSession db =
     (case findById lessonId \<lparr> includePurchases = True, includeReviews = True \<rparr> db of
        None \<Rightarrow> Inl (LessonNotFoundError lessonId)
      | Some rawLesson \<Rightarrow>
          if \<not> lesson_published (lwr_lesson rawLesson) \<and>
             \<not> (case userSession of
                   None \<Rightarrow> False
                 | Some s \<Rightarrow> lesson_instructorId (lwr_lesson rawLesson) = uid s \<or> role s = ADMIN)
          then Inl (LessonNotPublishedError lessonId)
          else Inr \<lparr> lwuc_lesson = lwr_lesson rawLesson,
                     lwuc_stats = getLessonStats lessonId db,
                     lwuc_userContext =
                       map_option (\<lambda>s. buildUserContext lessonId s db) userSession \<rparr>)"

text \<open>
  \<open>searchLessons\<close>: the filters the service hands to the repository, and the two
  queries it issues with them (the page of lessons and the count).
\<close>

definition searchFilters :: "lesson_search_filters \<Rightarrow> user_session option \<Rightarrow> lesson_search_filters" where
  "searchFilters filters userSession =
     filters\<lparr> lsf_published :=
                (if map_option role userSession = Some INSTRUCTOR
                 then lsf_published filters else Some True) \<rparr>"

definition searchLessons ::
    "lesson_search_filters \<Rightarrow> lesson_sort_options \<Rightarrow> user_session option
       \<Rightarrow> find_many_args \<times> lesson_where_input" where
  "searchLessons filters sortOpts userSession =
     (repository_searchLessons (searchFilters filters userSession) sortOpts,
      repository_countLessons (searchFilters filters userSession))"

definition deleteLesson :: "string \<Rightarrow> user_session \<Rightarrow> database \<Rightarrow> (app_error + bool) \<times> database" where
  "deleteLesson lessonId userSession db =
     (case findById lessonId \<lparr> includePurchases = True, includeReviews = False \<rparr> db of
        None \<Rightarrow> (Inl (LessonNotFoundError lessonId), db)
      | Some existingLesson \<Rightarrow>
          if lesson_instructorId (lwr_lesson existingLesson) \<noteq> uid userSession \<and>
             role userSession \<noteq> ADMIN
          then (Inl (LessonPermissionDeniedError lessonId (uid userSession)), db)
          else
            (let purchaseCount = (case lwr_purchases existingLesson of
                                    None \<Rightarrow> 0
                                  | Some ps \<Rightarrow> length ps)
             in if purchaseCount > 0 then (Inl (LessonHasPurchasesError lessonId purchaseCount), db)
                else case repository_deleteLesson lessonId db of
                       Inl e \<Rightarrow> (Inl e, db)
                     | Inr (deleted, db') \<Rightarrow> (Inr True, db')))"

section \<open>Middleware and routes\<close>

text \<open>
  \<open>requireAuth\<close>: \<open>token\<close> is the second word of the \<open>Authorization\<close> header when
  there is one, \<open>verifyIdToken\<close> the identity provider's check (\<open>None\<close> when it
  rejects the token). \<open>requireRole\<close> reads the user the request carries.
\<close>

definition requireAuth :: "(string \<Rightarrow> user_session option) \<Rightarrow> string option \<Rightarrow> app_error + user_session" where
  "requireAuth verifyIdToken token =
     (case token of
        None \<Rightarrow> Inl (AppError 401 ''No authentication token provided'' None)
      | Some t \<Rightarrow>
          if t = [] then Inl (AppError 401 ''No authentication token provided'' None)
          else case verifyIdToken t of
                 None \<Rightarrow> Inl (AppError 401 ''Invalid authentication token'' None)
               | Some decodedToken \<Rightarrow> Inr decodedToken)"

definition requireRole :: "role list \<Rightarrow> user_session option \<Rightarrow> app_error + unit" where
  "requireRole roles user =
     (case user of
        None \<Rightarrow> Inl (AppError 401 ''Authentication required'' None)
      | Some u \<Rightarrow>
          if role u \<notin> set roles then Inl (AppError 403 ''Insufficient permissions'' None)
          else Inr ())"

text \<open>
  \<open>POST /api/lessons\<close>: \<open>requireAuth\<close>, \<open>requireRole(['INSTRUCTOR'])\<close>, the request
  schema (a parameter: it belongs to the schema library), then the service.
\<close>

definition post_lesson ::
    "(string \<Rightarrow> user_session option) \<Rightarrow> ('b \<Rightarrow> app_error + create_lesson_input) \<Rightarrow> string option \<Rightarrow> 'b
       \<Rightarrow> string \<Rightarrow> database \<Rightarrow> (app_error + lesson_row) \<times> database" where
  "post_lesson verifyIdToken validateCreateLessonRequest token body newId db =
     (case requireAuth verifyIdToken token of
        Inl e \<Rightarrow> (Inl e, db)
      | Inr user \<Rightarrow>
          (case requireRole [INSTRUCTOR] (Some user) of
             Inl e \<Rightarrow> (Inl e, db)
           | Inr u \<Rightarrow>
               (case validateCreateLessonRequest body of
                  Inl e \<Rightarrow> (Inl e, db)
                | Inr lessonInput \<Rightarrow> createLesson lessonInput user newId db)))"

text \<open>
  \<open>GET /api/lessons\<close>: the sort options built from the query parameters \<open>sortBy\<close>
  (default \<open>created\<close>) and \<open>sortOrder\<close> (default \<open>desc\<close>).
\<close>

definition sortOptions :: "string option \<Rightarrow> sort_direction option \<Rightarrow> lesson_sort_options" where
  "sortOptions sortByParam sortOrderParam =
     (let sortBy = (case sortByParam of None \<Rightarrow> ''created'' | Some s \<Rightarrow> s);
          sortOrder = (case sortOrderParam of None \<Rightarrow> Desc | Some d \<Rightarrow> d)
      in \<lparr> sort_field = Some (if sortBy = ''created'' then ''createdAt'' else sortBy),
           sort_direction = sortOrder \<rparr>)"

section \<open>Example data\<close>

text \<open>
  Two lessons of instructor \<open>U1\<close>: \<open>L1\<close> unpublished, \<open>L2\<close> published. In
  \<open>db_completed\<close> lesson \<open>L2\<close> has one completed purchase; in \<open>db_unsettled\<close>
  it has three purchases, none of them completed.
\<close>

definition lesson_L1 :: lesson_row where
  "lesson_L1 = \<lparr> lesson_id = ''L1'', lesson_title = [0x44, 0x72, 0x61, 0x66, 0x74],
                 lesson_description = None, lesson_price = 2999, lesson_category = None,
                 lesson_instructorId = ''U1'', lesson_published = False,
                 lesson_thumbnailUrl = None \<rparr>"

definition lesson_L2 :: lesson_row where
  "lesson_L2 = \<lparr> lesson_id = ''L2'', lesson_title = [0x4C, 0x69, 0x76, 0x65],
                 lesson_description = None, lesson_price = 1000, lesson_category = None,
                 lesson_instructorId = ''U1'', lesson_published = True,
                 lesson_thumbnailUrl = None \<rparr>"

definition example_purchase :: "string \<Rightarrow> string \<Rightarrow> purchase_status \<Rightarrow> purchase_row" where
  "example_purchase pid userId st =
     \<lparr> purchase_id = pid, purchase_userId = userId, purchase_lessonId = ''L2'',
       purchase_amount = 1000, purchase_status = st \<rparr>"

definition db_empty :: database where
  "db_empty = \<lparr> lessons = [lesson_L1, lesson_L2], purchases = [], reviews = [] \<rparr>"

definition db_completed :: database where
  "db_completed = \<lparr> lessons = [lesson_L1, lesson_L2],
                    purchases = [example_purchase ''P1'' ''U2'' COMPLETED],
                    reviews = [] \<rparr>"

definition db_unsettled :: database where
  "db_unsettled = \<lparr> lessons = [lesson_L1, lesson_L2],
                    purchases = [example_purchase ''P1'' ''U2'' PENDING,
                                 example_purchase ''P2'' ''U3'' FAILED,
                                 example_purchase ''P3'' ''U4'' REFUNDED],
                    reviews = [] \<rparr>"

definition session :: "string \<Rightarrow> role \<Rightarrow> user_session" where
  "session userId r = \<lparr> uid = userId, role = r \<rparr>"

text \<open>The input \<open>{ title: "ok", price: p }\<close> and the empty search filters.\<close>

definition input_ok :: "int \<Rightarrow> create_lesson_input" where
  "input_ok p = \<lparr> cli_title = Some [0x6F, 0x6B], cli_description = None, cli_price = p,
                  cli_category = None \<rparr>"

definition no_filters :: lesson_search_filters where
  "no_filters = \<lparr> lsf_query = None, lsf_category = None, lsf_minPrice = None,
                  lsf_maxPrice = None, lsf_instructorId = None, lsf_published = None,
                  lsf_limit = None, lsf_offset = None \<rparr>"

lemmas example_defs =
  lesson_L1_def lesson_L2_def example_purchase_def db_empty_def db_completed_def
  db_unsettled_def session_def

section \<open>Properties of validation\<close>

lemma dropWhile_all_iff:
  "(\<forall>c \<in> set (dropWhile P s). P c) \<longleftrightarrow> (\<forall>c \<in> set s. P c)"
proof (cases "dropWhile P s")
  case Nil
  then have r: "\<forall>c \<in> set s. P c" by simp
  show ?thesis unfolding Nil using r by simp
next
  case (Cons x xs)
  then have nx: "\<not> P x" using hd_dropWhile [of P s] by simp
  from Cons have "x \<in> set (dropWhile P s)" by simp
  then have "x \<in> set s" by (rule set_dropWhileD)
  with nx Cons show ?thesis by auto
qed

lemma js_trim_empty_iff: "js_trim s = [] \<longleftrightarrow> (\<forall>c \<in> set s. js_is_whitespace c)"
  using dropWhile_all_iff [of js_is_whitespace s]
  by (simp add: js_trim_def dropWhile_eq_Nil_conv)

section \<open>Properties of the repository\<close>

lemma findById_found:
  assumes "find (\<lambda>l. lesson_id l = lessonId) (lessons db) = Some l"
  shows "findById lessonId options db =
           Some \<lparr> lwr_lesson = l,
                  lwr_purchases =
                    (if includePurchases options
                     then Some (filter (\<lambda>p. purchase_lessonId p = lessonId) (purchases db))
                     else None),
                  lwr_reviews =
                    (if includeReviews options
                     then Some (filter (\<lambda>r. review_lessonId r = lessonId) (reviews db))
                     else None) \<rparr>"
  using assms by (simp add: findById_def)

lemma findById_missing:
  assumes "find (\<lambda>l. lesson_id l = lessonId) (lessons db) = None"
  shows "findById lessonId options db = None"
  using assms by (simp add: findById_def)

lemma find_filter_keeps:
  assumes "find P xs = Some x" and "\<And>y. P y \<Longrightarrow> Q y"
  shows "find P (filter Q xs) = Some x"
  using assms by (induction xs) (auto split: if_splits)

lemma filter_length_pos:
  assumes "x \<in> set xs" and "P x"
  shows "0 < length (filter P xs)"
  using assms by (induction xs) auto

lemma find_filter_removed: "find (\<lambda>l. f l = k) (filter (\<lambda>l. f l \<noteq> k) xs) = None"
  by (simp add: find_None_iff)

lemma repository_deleteLesson_found:
  assumes "find (\<lambda>l. lesson_id l = lessonId) (lessons db) = Some l"
  shows "repository_deleteLesson lessonId db =
           Inr (l, db\<lparr>lessons := filter (\<lambda>l. lesson_id l \<noteq> lessonId) (lessons db)\<rparr>)"
  using assms by (simp add: repository_deleteLesson_def)

section \<open>Properties of deletion\<close>

text \<open>
  The outcome of \<open>deleteLesson\<close> on a lesson that exists, in the order the service
  decides it; the count is the number of purchases of the lesson, whatever their status.
\<close>

lemma deleteLesson_found:
  assumes "find (\<lambda>l. lesson_id l = lessonId) (lessons db) = Some l"
  shows "deleteLesson lessonId caller db =
           (if lesson_instructorId l \<noteq> uid caller \<and> role caller \<noteq> ADMIN
            then (Inl (LessonPermissionDeniedError lessonId (uid caller)), db)
            else if 0 < length (filter (\<lambda>p. purchase_lessonId p = lessonId) (purchases db))
            then (Inl (LessonHasPurchasesError lessonId
                         (length (filter (\<lambda>p. purchase_lessonId p = lessonId) (purchases db)))), db)
            else (Inr True, db\<lparr>lessons := filter (\<lambda>l. lesson_id l \<noteq> lessonId) (lessons db)\<rparr>))"
  by (simp add: deleteLesson_def findById_found [OF assms] repository_deleteLesson_found [OF assms]
        Let_def)

lemma deleteLesson_missing:
  assumes "find (\<lambda>l. lesson_id l = lessonId) (lessons db) = None"
  shows "deleteLesson lessonId caller db = (Inl (LessonNotFoundError lessonId), db)"
  by (simp add: deleteLesson_def findById_missing [OF assms])

text \<open>
  C1. On an existing lesson, \<open>deleteLesson\<close> fails with the permission error when the
  caller is neither the owner nor an administrator, whatever the number of purchases;
  otherwise it fails with the has-purchases error when the lesson has a purchase, also
  for an administrator; otherwise it returns true and the lesson is gone. A failure
  leaves the database as it was.
\<close>

theorem deleteLesson_permission_then_purchases:
  assumes "find (\<lambda>l. lesson_id l = lessonId) (lessons db) = Some l"
  shows "(lesson_instructorId l \<noteq> uid caller \<and> role caller \<noteq> ADMIN \<longrightarrow>
            deleteLesson lessonId caller db =
              (Inl (LessonPermissionDeniedError lessonId (uid caller)), db))
       \<and> ((lesson_instructorId l = uid caller \<or> role caller = ADMIN) \<and>
            0 < length (filter (\<lambda>p. purchase_lessonId p = lessonId) (purchases db)) \<longrightarrow>
            deleteLesson lessonId caller db =
              (Inl (LessonHasPurchasesError lessonId
                      (length (filter (\<lambda>p. purchase_lessonId p = lessonId) (purchases db)))), db))
       \<and> ((lesson_instructorId l = uid caller \<or> role caller = ADMIN) \<and>
            length (filter (\<lambda>p. purchase_lessonId p = lessonId) (purchases db)) = 0 \<longrightarrow>
            fst (deleteLesson lessonId caller db) = Inr True \<and>
            find (\<lambda>l. lesson_id l = lessonId) (lessons (snd (deleteLesson lessonId caller db))) = None \<and>
            purchases (snd (deleteLesson lessonId caller db)) = purchases db)"
  by (auto simp add: deleteLesson_found [OF assms] find_filter_removed)

theorem deleteLesson_permission_then_purchases_witness:
  "find (\<lambda>l. lesson_id l = ''L2'') (lessons db_completed) = Some lesson_L2
   \<and> deleteLesson ''L2'' (session ''U2'' STUDENT) db_completed =
       (Inl (LessonPermissionDeniedError ''L2'' ''U2''), db_completed)
   \<and> deleteLesson ''L2'' (session ''U1'' INSTRUCTOR) db_completed =
       (Inl (LessonHasPurchasesError ''L2'' 1), db_completed)
   \<and> deleteLesson ''L2'' (session ''ADMIN1'' ADMIN) db_completed =
       (Inl (LessonHasPurchasesError ''L2'' 1), db_completed)
   \<and> find (\<lambda>l. lesson_id l = ''L2'') (lessons db_empty) = Some lesson_L2
   \<and> fst (deleteLesson ''L2'' (session ''ADMIN1'' ADMIN) db_empty) = Inr True
   \<and> find (\<lambda>l. lesson_id l = ''L2'')
       (lessons (snd (deleteLesson ''L2'' (session ''ADMIN1'' ADMIN) db_empty))) = None"
proof -
  have h: "find (\<lambda>l. lesson_id l = ''L2'') (lessons db_completed) = Some lesson_L2"
    by (simp add: example_defs)
  have h0: "find (\<lambda>l. lesson_id l = ''L2'') (lessons db_empty) = Some lesson_L2"
    by (simp add: example_defs)
  have n: "length (filter (\<lambda>p. purchase_lessonId p = ''L2'') (purchases db_completed)) = 1"
    by (simp add: example_defs)
  have n0: "length (filter (\<lambda>p. purchase_lessonId p = ''L2'') (purchases db_empty)) = 0"
    by (simp add: example_defs)
  have o: "lesson_instructorId lesson_L2 = ''U1''" by (simp add: example_defs)
  have s: "uid (session u r) = u" "role (session u r) = r" for u r by (simp_all add: session_def)
  show ?thesis
    using h h0
      deleteLesson_permission_then_purchases [OF h, of "session ''U2'' STUDENT"]
      deleteLesson_permission_then_purchases [OF h, of "session ''U1'' INSTRUCTOR"]
      deleteLesson_permission_then_purchases [OF h, of "session ''ADMIN1'' ADMIN"]
      deleteLesson_permission_then_purchases [OF h0, of "session ''ADMIN1'' ADMIN"]
    by (simp add: n n0 o s)
qed

text \<open>
  C5. A lesson with at least one completed purchase is never deleted: every
  \<open>deleteLesson\<close> on it fails and leaves the database as it was, with the
  has-purchases error when the caller is the owner or an administrator, and a
  \<open>deleteLesson\<close> aimed at any lesson leaves it in the table and the purchases
  untouched, so that the same holds for the next call.
\<close>

theorem deleteLesson_never_deletes_purchased_lesson:
  assumes "find (\<lambda>l. lesson_id l = lessonId) (lessons db) = Some l"
      and "p \<in> set (purchases db)"
      and "purchase_lessonId p = lessonId"
      and "purchase_status p = COMPLETED"
  shows "(\<exists>e. deleteLesson lessonId caller db = (Inl e, db))
       \<and> (lesson_instructorId l = uid caller \<or> role caller = ADMIN \<longrightarrow>
            deleteLesson lessonId caller db =
              (Inl (LessonHasPurchasesError lessonId
                      (length (filter (\<lambda>p. purchase_lessonId p = lessonId) (purchases db)))), db))
       \<and> find (\<lambda>l. lesson_id l = lessonId) (lessons (snd (deleteLesson otherId caller db))) = Some l
       \<and> purchases (snd (deleteLesson otherId caller db)) = purchases db"
proof -
  have n: "0 < length (filter (\<lambda>p. purchase_lessonId p = lessonId) (purchases db))"
    using assms(2,3) by (rule filter_length_pos)
  have same: "deleteLesson lessonId caller db =
      (if lesson_instructorId l \<noteq> uid caller \<and> role caller \<noteq> ADMIN
       then (Inl (LessonPermissionDeniedError lessonId (uid caller)), db)
       else (Inl (LessonHasPurchasesError lessonId
                    (length (filter (\<lambda>p. purchase_lessonId p = lessonId) (purchases db)))), db))"
    using n by (simp add: deleteLesson_found [OF assms(1)])
  have remains: "find (\<lambda>l. lesson_id l = lessonId) (lessons (snd (deleteLesson otherId caller db))) = Some l"
  proof (cases "otherId = lessonId")
    case True
    then show ?thesis using same assms(1) by simp
  next
    case False
    show ?thesis
    proof (cases "find (\<lambda>l. lesson_id l = otherId) (lessons db)")
      case None
      then show ?thesis using assms(1) by (simp add: deleteLesson_missing)
    next
      case (Some l')
      have "find (\<lambda>l. lesson_id l = lessonId) (filter (\<lambda>l. lesson_id l \<noteq> otherId) (lessons db)) = Some l"
        using assms(1) False by (intro find_filter_keeps) auto
      then show ?thesis using assms(1) by (simp add: deleteLesson_found [OF Some])
    qed
  qed
  have kept: "purchases (snd (deleteLesson otherId caller db)) = purchases db"
  proof (cases "find (\<lambda>l. lesson_id l = otherId) (lessons db)")
    case None
    then show ?thesis by (simp add: deleteLesson_missing)
  next
    case (Some l')
    then show ?thesis by (simp add: deleteLesson_found [OF Some])
  qed
  from same remains kept show ?thesis by simp
qed

theorem deleteLesson_never_deletes_purchased_lesson_witness:
  "find (\<lambda>l. lesson_id l = ''L2'') (lessons db_completed) = Some lesson_L2
   \<and> example_purchase ''P1'' ''U2'' COMPLETED \<in> set (purchases db_completed)
   \<and> purchase_lessonId (example_purchase ''P1'' ''U2'' COMPLETED) = ''L2''
   \<and> purchase_status (example_purchase ''P1'' ''U2'' COMPLETED) = COMPLETED
   \<and> deleteLesson ''L2'' (session ''U1'' INSTRUCTOR) db_completed =
       (Inl (LessonHasPurchasesError ''L2'' 1), db_completed)
   \<and> find (\<lambda>l. lesson_id l = ''L2'')
       (lessons (snd (deleteLesson ''L1'' (session ''U1'' INSTRUCTOR) db_completed))) = Some lesson_L2"
proof -
  have h: "find (\<lambda>l. lesson_id l = ''L2'') (lessons db_completed) = Some lesson_L2"
    by (simp add: example_defs)
  have m: "example_purchase ''P1'' ''U2'' COMPLETED \<in> set (purchases db_completed)"
    by (simp add: db_completed_def)
  have l: "purchase_lessonId (example_purchase ''P1'' ''U2'' COMPLETED) = ''L2''"
    by (simp add: example_purchase_def)
  have c: "purchase_status (example_purchase ''P1'' ''U2'' COMPLETED) = COMPLETED"
    by (simp add: example_purchase_def)
  have n: "length (filter (\<lambda>p. purchase_lessonId p = ''L2'') (purchases db_completed)) = 1"
    by (simp add: example_defs)
  have o: "lesson_instructorId lesson_L2 = uid (session ''U1'' INSTRUCTOR)"
    by (simp add: example_defs)
  show ?thesis
    using h m l c
      deleteLesson_never_deletes_purchased_lesson
        [OF h m l c, of "session ''U1'' INSTRUCTOR" "''L1''"]
    by (simp add: n o)
qed

text \<open>
  C10. The count that blocks deletion is the number of all purchases of the lesson:
  an authorised \<open>deleteLesson\<close> on a lesson with a purchase of any status fails with
  the has-purchases error carrying that count, also when no purchase is completed and
  \<open>getLessonStats\<close>, which counts completed purchases only, reports none.
\<close>

theorem deleteLesson_blocked_by_purchase_of_any_status:
  assumes "find (\<lambda>l. lesson_id l = lessonId) (lessons db) = Some l"
      and "lesson_instructorId l = uid caller \<or> role caller = ADMIN"
      and "p \<in> set (purchases db)"
      and "purchase_lessonId p = lessonId"
  shows "deleteLesson lessonId caller db =
           (Inl (LessonHasPurchasesError lessonId
                   (length (filter (\<lambda>p. purchase_lessonId p = lessonId) (purchases db)))), db)
       \<and> purchaseCount (getLessonStats lessonId db) =
           length (filter (\<lambda>p. purchase_lessonId p = lessonId \<and> purchase_status p = COMPLETED)
                     (purchases db))
       \<and> ((\<forall>q \<in> set (purchases db). purchase_lessonId q = lessonId \<longrightarrow> purchase_status q \<noteq> COMPLETED)
            \<longrightarrow> purchaseCount (getLessonStats lessonId db) = 0)"
proof -
  have n: "0 < length (filter (\<lambda>p. purchase_lessonId p = lessonId) (purchases db))"
    using assms(3,4) by (rule filter_length_pos)
  have d: "deleteLesson lessonId caller db =
           (Inl (LessonHasPurchasesError lessonId
                   (length (filter (\<lambda>p. purchase_lessonId p = lessonId) (purchases db)))), db)"
    using n assms(2) by (auto simp add: deleteLesson_found [OF assms(1)])
  have c: "purchaseCount (getLessonStats lessonId db) =
           length (filter (\<lambda>p. purchase_lessonId p = lessonId \<and> purchase_status p = COMPLETED)
                     (purchases db))"
    by (simp add: getLessonStats_def Let_def)
  have z: "(\<forall>q \<in> set (purchases db). purchase_lessonId q = lessonId \<longrightarrow> purchase_status q \<noteq> COMPLETED)
            \<longrightarrow> purchaseCount (getLessonStats lessonId db) = 0"
    by (auto simp add: c filter_empty_conv)
  from d c z show ?thesis by simp
qed

theorem deleteLesson_blocked_by_purchase_of_any_status_witness:
  "find (\<lambda>l. lesson_id l = ''L2'') (lessons db_unsettled) = Some lesson_L2
   \<and> (lesson_instructorId lesson_L2 = uid (session ''U1'' INSTRUCTOR)
        \<or> role (session ''U1'' INSTRUCTOR) = ADMIN)
   \<and> example_purchase ''P1'' ''U2'' PENDING \<in> set (purchases db_unsettled)
   \<and> purchase_lessonId (example_purchase ''P1'' ''U2'' PENDING) = ''L2''
   \<and> map purchase_status (filter (\<lambda>q. purchase_lessonId q = ''L2'') (purchases db_unsettled)) =
       [PENDING, FAILED, REFUNDED]
   \<and> deleteLesson ''L2'' (session ''U1'' INSTRUCTOR) db_unsettled =
       (Inl (LessonHasPurchasesError ''L2'' 3), db_unsettled)
   \<and> purchaseCount (getLessonStats ''L2'' db_unsettled) = 0"
proof -
  have h: "find (\<lambda>l. lesson_id l = ''L2'') (lessons db_unsettled) = Some lesson_L2"
    by (simp add: example_defs)
  have a: "lesson_instructorId lesson_L2 = uid (session ''U1'' INSTRUCTOR)
        \<or> role (session ''U1'' INSTRUCTOR) = ADMIN"
    by (simp add: example_defs)
  have m: "example_purchase ''P1'' ''U2'' PENDING \<in> set (purchases db_unsettled)"
    by (simp add: db_unsettled_def)
  have l: "purchase_lessonId (example_purchase ''P1'' ''U2'' PENDING) = ''L2''"
    by (simp add: example_purchase_def)
  have u: "\<forall>q \<in> set (purchases db_unsettled). purchase_lessonId q = ''L2'' \<longrightarrow> purchase_status q \<noteq> COMPLETED"
    by (simp add: example_defs)
  have n: "length (filter (\<lambda>p. purchase_lessonId p = ''L2'') (purchases db_unsettled)) = 3"
    by (simp add: example_defs)
  have k: "map purchase_status (filter (\<lambda>q. purchase_lessonId q = ''L2'') (purchases db_unsettled)) =
       [PENDING, FAILED, REFUNDED]"
    by (simp add: example_defs)
  show ?thesis
    using h a m l u k deleteLesson_blocked_by_purchase_of_any_status [OF h a m l]
    by (simp add: n)
qed

section \<open>Properties of viewing\<close>

lemma getLessonById_found:
  assumes "find (\<lambda>l. lesson_id l = lessonId) (lessons db) = Some l"
  shows "getLessonById lessonId caller db =
           (if \<not> lesson_published l \<and>
               \<not> (case caller of
                     None \<Rightarrow> False
                   | Some s \<Rightarrow> lesson_instructorId l = uid s \<or> role s = ADMIN)
            then Inl (LessonNotPublishedError lessonId)
            else Inr \<lparr> lwuc_lesson = l,
                       lwuc_stats = getLessonStats lessonId db,
                       lwuc_userContext = map_option (\<lambda>s. buildUserContext lessonId s db) caller \<rparr>)"
  by (simp add: getLessonById_def findById_found [OF assms] split: option.splits)

lemma getLessonById_missing:
  assumes "find (\<lambda>l. lesson_id l = lessonId) (lessons db) = None"
  shows "getLessonById lessonId caller db = Inl (LessonNotFoundError lessonId)"
  by (simp add: getLessonById_def findById_missing [OF assms])

text \<open>
  C2. \<open>getLessonById\<close> returns a published lesson to every caller, the anonymous one
  included, and an unpublished lesson exactly to a caller who is present and is the
  owner or an administrator.
\<close>

theorem getLessonById_visibility:
  assumes "find (\<lambda>l. lesson_id l = lessonId) (lessons db) = Some l"
  shows "(lesson_published l \<longrightarrow>
            (\<exists>r. getLessonById lessonId caller db = Inr r) \<and>
            (\<exists>r. getLessonById lessonId None db = Inr r))
       \<and> (\<not> lesson_published l \<longrightarrow>
            ((\<exists>r. getLessonById lessonId caller db = Inr r) \<longleftrightarrow>
             (\<exists>s. caller = Some s \<and> (uid s = lesson_instructorId l \<or> role s = ADMIN))))"
  by (cases caller) (auto simp add: getLessonById_found [OF assms])

theorem getLessonById_visibility_witness:
  "find (\<lambda>l. lesson_id l = ''L1'') (lessons db_empty) = Some lesson_L1
   \<and> \<not> lesson_published lesson_L1
   \<and> (\<exists>r. getLessonById ''L1'' (Some (session ''U1'' INSTRUCTOR)) db_empty = Inr r)
   \<and> (\<exists>r. getLessonById ''L1'' (Some (session ''A1'' ADMIN)) db_empty = Inr r)
   \<and> \<not> (\<exists>r. getLessonById ''L1'' (Some (session ''U2'' STUDENT)) db_empty = Inr r)
   \<and> \<not> (\<exists>r. getLessonById ''L1'' None db_empty = Inr r)
   \<and> find (\<lambda>l. lesson_id l = ''L2'') (lessons db_empty) = Some lesson_L2
   \<and> lesson_published lesson_L2
   \<and> (\<exists>r. getLessonById ''L2'' (Some (session ''U2'' STUDENT)) db_empty = Inr r)
   \<and> (\<exists>r. getLessonById ''L2'' None db_empty = Inr r)"
proof -
  have h1: "find (\<lambda>l. lesson_id l = ''L1'') (lessons db_empty) = Some lesson_L1"
    by (simp add: example_defs)
  have h2: "find (\<lambda>l. lesson_id l = ''L2'') (lessons db_empty) = Some lesson_L2"
    by (simp add: example_defs)
  have p: "\<not> lesson_published lesson_L1" "lesson_published lesson_L2"
    "lesson_instructorId lesson_L1 = ''U1''"
    by (simp_all add: example_defs)
  have s: "uid (session u r) = u" "role (session u r) = r" for u r by (simp_all add: session_def)
  show ?thesis
    using h1 h2
      getLessonById_visibility [OF h1, of "Some (session ''U1'' INSTRUCTOR)"]
      getLessonById_visibility [OF h1, of "Some (session ''A1'' ADMIN)"]
      getLessonById_visibility [OF h1, of "Some (session ''U2'' STUDENT)"]
      getLessonById_visibility [OF h1, of None]
      getLessonById_visibility [OF h2, of "Some (session ''U2'' STUDENT)"]
    by (simp add: p s)
qed

text \<open>
  C8. An unpublished lesson requested by a caller who is absent, or is neither the
  owner nor an administrator, fails with the not-published error. \<open>getLessonById\<close>
  fails only with the not-found or the not-published error, never with the permission
  error of the mutations, and the two errors differ in class and in code.
\<close>

theorem getLessonById_not_published_error:
  "(find (\<lambda>l. lesson_id l = lessonId) (lessons db) = Some l \<and> \<not> lesson_published l \<and>
      (caller = None \<or> (\<exists>s. caller = Some s \<and> uid s \<noteq> lesson_instructorId l \<and> role s \<noteq> ADMIN))
      \<longrightarrow> getLessonById lessonId caller db = Inl (LessonNotPublishedError lessonId))
   \<and> (getLessonById lessonId caller db = Inl e \<longrightarrow>
        e = LessonNotFoundError lessonId \<or> e = LessonNotPublishedError lessonId)
   \<and> getLessonById lessonId caller db \<noteq> Inl (LessonPermissionDeniedError a b)
   \<and> LessonNotPublishedError a \<noteq> LessonPermissionDeniedError b c
   \<and> errorCode (LessonNotPublishedError a) \<noteq> errorCode (LessonPermissionDeniedError b c)"
proof -
  have cases: "getLessonById lessonId caller db = Inl e \<Longrightarrow>
        e = LessonNotFoundError lessonId \<or> e = LessonNotPublishedError lessonId" for e
  proof (cases "find (\<lambda>l. lesson_id l = lessonId) (lessons db)")
    case None
    assume "getLessonById lessonId caller db = Inl e"
    then show ?thesis by (simp add: getLessonById_missing [OF None])
  next
    case (Some l')
    assume "getLessonById lessonId caller db = Inl e"
    then show ?thesis by (simp add: getLessonById_found [OF Some] split: if_splits)
  qed
  have denied: "getLessonById lessonId caller db \<noteq> Inl (LessonPermissionDeniedError a b)"
    using cases [of "LessonPermissionDeniedError a b"] by auto
  have unpublished: "find (\<lambda>l. lesson_id l = lessonId) (lessons db) = Some l \<and> \<not> lesson_published l \<and>
      (caller = None \<or> (\<exists>s. caller = Some s \<and> uid s \<noteq> lesson_instructorId l \<and> role s \<noteq> ADMIN))
      \<longrightarrow> getLessonById lessonId caller db = Inl (LessonNotPublishedError lessonId)"
    by (auto simp add: getLessonById_found split: option.splits)
  from cases denied unpublished show ?thesis by simp
qed

theorem getLessonById_not_published_error_witness:
  "find (\<lambda>l. lesson_id l = ''L1'') (lessons db_empty) = Some lesson_L1
   \<and> \<not> lesson_published lesson_L1
   \<and> getLessonById ''L1'' None db_empty = Inl (LessonNotPublishedError ''L1'')
   \<and> getLessonById ''L1'' (Some (session ''U2'' STUDENT)) db_empty = Inl (LessonNotPublishedError ''L1'')
   \<and> getLessonById ''L1'' (Some (session ''U3'' INSTRUCTOR)) db_empty = Inl (LessonNotPublishedError ''L1'')
   \<and> deleteLesson ''L1'' (session ''U3'' INSTRUCTOR) db_empty =
       (Inl (LessonPermissionDeniedError ''L1'' ''U3''), db_empty)"
proof -
  have h1: "find (\<lambda>l. lesson_id l = ''L1'') (lessons db_empty) = Some lesson_L1"
    by (simp add: example_defs)
  have p: "\<not> lesson_published lesson_L1" "lesson_instructorId lesson_L1 = ''U1''"
    by (simp_all add: example_defs)
  have s: "uid (session u r) = u" "role (session u r) = r" for u r by (simp_all add: session_def)
  have d: "deleteLesson ''L1'' (session ''U3'' INSTRUCTOR) db_empty =
       (Inl (LessonPermissionDeniedError ''L1'' ''U3''), db_empty)"
    by (simp add: deleteLesson_found [OF h1] p s)
  show ?thesis
    using h1 d
      getLessonById_not_published_error [of "''L1''" db_empty lesson_L1 None]
      getLessonById_not_published_error [of "''L1''" db_empty lesson_L1 "Some (session ''U2'' STUDENT)"]
      getLessonById_not_published_error [of "''L1''" db_empty lesson_L1 "Some (session ''U3'' INSTRUCTOR)"]
    by (simp add: p s)
qed

section \<open>Properties of validation, continued\<close>

text \<open>The checks of \<open>validateLessonInput\<close> in their order, with \<open>trim\<close> resolved.\<close>

lemma validateLessonInput_cases:
  "validateLessonInput input =
     (case cli_title input of
        None \<Rightarrow> Inl (LessonValidationError ''title'' ''Title is required'')
      | Some t \<Rightarrow>
          if \<forall>c \<in> set t. js_is_whitespace c then
            Inl (LessonValidationError ''title'' ''Title is required'')
          else if 200 < length t then
            Inl (LessonValidationError ''title'' ''Title must be 200 characters or less'')
          else if (case cli_description input of None \<Rightarrow> False | Some d \<Rightarrow> 2000 < length d) then
            Inl (LessonValidationError ''description''
                   ''Description must be 2000 characters or less'')
          else validatePrice (cli_price input))"
  by (auto simp add: validateLessonInput_def js_trim_empty_iff split: option.splits)

lemma validateLessonInput_input_ok: "validateLessonInput (input_ok p) = validatePrice p"
proof -
  have "\<not> js_is_whitespace (0x6F :: 16 word)" by (simp add: js_is_whitespace_def)
  then show ?thesis by (simp add: validateLessonInput_cases input_ok_def)
qed

text \<open>
  C6. The price range is inclusive at both ends: on an input whose title and
  description pass, \<open>validateLessonInput\<close> accepts the prices 100 and 99999 and
  rejects 99 and 100000; every price below 100 or above 99999 fails with the
  invalid-price error carrying that price, every price in between is accepted; no
  input with a price out of range is accepted at all; and the invalid-price error
  differs from the validation error in class and in code.
\<close>

theorem validateLessonInput_price_bounds:
  "((\<exists>t. cli_title input = Some t \<and> \<not> (\<forall>c \<in> set t. js_is_whitespace c) \<and> length t \<le> 200) \<and>
    (cli_description input = None \<or> (\<exists>d. cli_description input = Some d \<and> length d \<le> 2000))
    \<longrightarrow> validateLessonInput (input\<lparr>cli_price := 100\<rparr>) = Inr ()
      \<and> validateLessonInput (input\<lparr>cli_price := 99999\<rparr>) = Inr ()
      \<and> validateLessonInput (input\<lparr>cli_price := 99\<rparr>) = Inl (InvalidLessonPriceError 99)
      \<and> validateLessonInput (input\<lparr>cli_price := 100000\<rparr>) = Inl (InvalidLessonPriceError 100000)
      \<and> (price < 100 \<or> 99999 < price \<longrightarrow>
           validateLessonInput (input\<lparr>cli_price := price\<rparr>) = Inl (InvalidLessonPriceError price))
      \<and> (100 \<le> price \<and> price \<le> 99999 \<longrightarrow>
           validateLessonInput (input\<lparr>cli_price := price\<rparr>) = Inr ()))
   \<and> (cli_price input < 100 \<or> 99999 < cli_price input \<longrightarrow> validateLessonInput input \<noteq> Inr ())
   \<and> (price < 100 \<or> 99999 < price \<longrightarrow> validatePrice price = Inl (InvalidLessonPriceError price))
   \<and> (100 \<le> price \<and> price \<le> 99999 \<longrightarrow> validatePrice price = Inr ())
   \<and> InvalidLessonPriceError price \<noteq> LessonValidationError field msg
   \<and> errorCode (InvalidLessonPriceError price) \<noteq> errorCode (LessonValidationError field msg)"
proof -
  have passes: "validateLessonInput (input\<lparr>cli_price := p\<rparr>) = validatePrice p"
    if "\<exists>t. cli_title input = Some t \<and> \<not> (\<forall>c \<in> set t. js_is_whitespace c) \<and> length t \<le> 200"
      and "cli_description input = None \<or> (\<exists>d. cli_description input = Some d \<and> length d \<le> 2000)"
    for p
    using that by (auto simp add: validateLessonInput_cases)
  have rejected: "validateLessonInput input \<noteq> Inr ()"
    if "cli_price input < 100 \<or> 99999 < cli_price input"
    using that
    by (auto simp add: validateLessonInput_cases validatePrice_def split: option.splits)
  show ?thesis
    using passes rejected by (auto simp add: validatePrice_def)
qed

theorem validateLessonInput_price_bounds_witness:
  "(\<exists>t. cli_title (input_ok 2999) = Some t \<and> \<not> (\<forall>c \<in> set t. js_is_whitespace c) \<and> length t \<le> 200)
   \<and> cli_description (input_ok 2999) = None
   \<and> validateLessonInput (input_ok 100) = Inr ()
   \<and> validateLessonInput (input_ok 99999) = Inr ()
   \<and> validateLessonInput (input_ok 99) = Inl (InvalidLessonPriceError 99)
   \<and> validateLessonInput (input_ok 100000) = Inl (InvalidLessonPriceError 100000)
   \<and> validateLessonInput (input_ok 50) = Inl (InvalidLessonPriceError 50)
   \<and> validateLessonInput (input_ok (- 1)) = Inl (InvalidLessonPriceError (- 1))"
proof -
  have t: "\<exists>t. cli_title (input_ok 2999) = Some t \<and> \<not> (\<forall>c \<in> set t. js_is_whitespace c) \<and> length t \<le> 200"
    by (simp add: input_ok_def js_is_whitespace_def)
  have d: "cli_description (input_ok 2999) = None"
    by (simp add: input_ok_def)
  have u: "(input_ok 2999)\<lparr>cli_price := p\<rparr> = input_ok p" for p
    by (simp add: input_ok_def)
  show ?thesis
    using t d
      validateLessonInput_price_bounds [of "input_ok 2999" 50]
      validateLessonInput_price_bounds [of "input_ok 2999" "- 1"]
    by (simp add: u)
qed

text \<open>
  C7. \<open>validateLessonInput\<close> checks the title first (present and not blank, then at
  most 200 code units), then the description (at most 2000 when present), then the
  price, and returns the error of the first check that fails: a missing or blank title
  gives the title error whatever the description and the price are, and so on down
  the order. An empty title with any price never gives the invalid-price error.
\<close>

theorem validateLessonInput_first_failure:
  "(cli_title input = None \<or> (\<exists>t. cli_title input = Some t \<and> (\<forall>c \<in> set t. js_is_whitespace c))
      \<longrightarrow> validateLessonInput input = Inl (LessonValidationError ''title'' ''Title is required''))
   \<and> ((\<exists>t. cli_title input = Some t \<and> \<not> (\<forall>c \<in> set t. js_is_whitespace c) \<and> 200 < length t)
      \<longrightarrow> validateLessonInput input =
            Inl (LessonValidationError ''title'' ''Title must be 200 characters or less''))
   \<and> ((\<exists>t. cli_title input = Some t \<and> \<not> (\<forall>c \<in> set t. js_is_whitespace c) \<and> length t \<le> 200) \<and>
       (\<exists>d. cli_description input = Some d \<and> 2000 < length d)
      \<longrightarrow> validateLessonInput input =
            Inl (LessonValidationError ''description''
                   ''Description must be 2000 characters or less''))
   \<and> ((\<exists>t. cli_title input = Some t \<and> \<not> (\<forall>c \<in> set t. js_is_whitespace c) \<and> length t \<le> 200) \<and>
       (cli_description input = None \<or> (\<exists>d. cli_description input = Some d \<and> length d \<le> 2000))
      \<longrightarrow> validateLessonInput input = validatePrice (cli_price input))
   \<and> (cli_title input = Some [] \<longrightarrow> validateLessonInput input \<noteq> Inl (InvalidLessonPriceError price))"
  by (auto simp add: validateLessonInput_cases)

theorem validateLessonInput_first_failure_witness:
  "validateLessonInput ((input_ok 2999)\<lparr>cli_title := Some []\<rparr>) =
     Inl (LessonValidationError ''title'' ''Title is required'')
   \<and> validateLessonInput ((input_ok 50)\<lparr>cli_title := Some []\<rparr>) =
     Inl (LessonValidationError ''title'' ''Title is required'')
   \<and> validateLessonInput ((input_ok 50)\<lparr>cli_title := Some [0x20, 0x09]\<rparr>) =
     Inl (LessonValidationError ''title'' ''Title is required'')
   \<and> validateLessonInput ((input_ok 50)\<lparr>cli_title := Some (replicate 201 0x61)\<rparr>) =
     Inl (LessonValidationError ''title'' ''Title must be 200 characters or less'')
   \<and> validateLessonInput ((input_ok 50)\<lparr>cli_description := Some (replicate 2001 0x61)\<rparr>) =
     Inl (LessonValidationError ''description'' ''Description must be 2000 characters or less'')
   \<and> validateLessonInput (input_ok 50) = Inl (InvalidLessonPriceError 50)"
proof -
  have w: "js_is_whitespace 0x20" "js_is_whitespace 0x09"
    "\<not> js_is_whitespace 0x61" "\<not> js_is_whitespace 0x6F"
    by (simp_all add: js_is_whitespace_def)
  show ?thesis
    using
      validateLessonInput_first_failure [of "(input_ok 2999)\<lparr>cli_title := Some []\<rparr>"]
      validateLessonInput_first_failure [of "(input_ok 50)\<lparr>cli_title := Some []\<rparr>"]
      validateLessonInput_first_failure [of "(input_ok 50)\<lparr>cli_title := Some [0x20, 0x09]\<rparr>"]
      validateLessonInput_first_failure [of "(input_ok 50)\<lparr>cli_title := Some (replicate 201 0x61)\<rparr>"]
      validateLessonInput_first_failure [of "(input_ok 50)\<lparr>cli_description := Some (replicate 2001 0x61)\<rparr>"]
      validateLessonInput_first_failure [of "input_ok 50"]
    by (simp add: input_ok_def w validatePrice_def)
qed

section \<open>Properties of search\<close>

text \<open>
  C3. \<open>searchLessons\<close> forces the \<open>published\<close> filter to true for a caller who is
  absent or whose role is not instructor (administrators and students alike), whatever
  was requested; for an instructor the requested value goes through unchanged, an
  absent value included. The other filters are left alone, and both queries of the
  search carry the resulting value.
\<close>

theorem searchLessons_published_filter:
  "(caller = None \<or> (\<exists>s. caller = Some s \<and> role s \<noteq> INSTRUCTOR) \<longrightarrow>
      lsf_published (searchFilters filters caller) = Some True \<and>
      where_published (fm_where (fst (searchLessons filters sortOpts caller))) = Some True \<and>
      where_published (snd (searchLessons filters sortOpts caller)) = Some True)
   \<and> ((\<exists>s. caller = Some s \<and> role s = INSTRUCTOR) \<longrightarrow>
      lsf_published (searchFilters filters caller) = lsf_published filters \<and>
      where_published (fm_where (fst (searchLessons filters sortOpts caller))) = lsf_published filters \<and>
      where_published (snd (searchLessons filters sortOpts caller)) = lsf_published filters)
   \<and> searchFilters filters caller =
       filters\<lparr>lsf_published := lsf_published (searchFilters filters caller)\<rparr>"
  by (auto simp add: searchFilters_def searchLessons_def repository_searchLessons_def
        repository_countLessons_def lessonWhere_def)

theorem searchLessons_published_filter_witness:
  "lsf_published (searchFilters (no_filters\<lparr>lsf_published := Some False\<rparr>) None) = Some True
   \<and> lsf_published (searchFilters (no_filters\<lparr>lsf_published := Some False\<rparr>)
        (Some (session ''U2'' STUDENT))) = Some True
   \<and> lsf_published (searchFilters (no_filters\<lparr>lsf_published := Some False\<rparr>)
        (Some (session ''A1'' ADMIN))) = Some True
   \<and> lsf_published (searchFilters (no_filters\<lparr>lsf_published := Some False\<rparr>)
        (Some (session ''U1'' INSTRUCTOR))) = Some False
   \<and> lsf_published (searchFilters no_filters (Some (session ''U1'' INSTRUCTOR))) = None
   \<and> where_published (fm_where (fst (searchLessons no_filters
        \<lparr> sort_field = None, sort_direction = Desc \<rparr> (Some (session ''U1'' INSTRUCTOR))))) = None"
proof -
  have s: "role (session u r) = r" for u r by (simp add: session_def)
  have n: "lsf_published no_filters = None" by (simp add: no_filters_def)
  show ?thesis
    using
      searchLessons_published_filter [of None "no_filters\<lparr>lsf_published := Some False\<rparr>"]
      searchLessons_published_filter
        [of "Some (session ''U2'' STUDENT)" "no_filters\<lparr>lsf_published := Some False\<rparr>"]
      searchLessons_published_filter
        [of "Some (session ''A1'' ADMIN)" "no_filters\<lparr>lsf_published := Some False\<rparr>"]
      searchLessons_published_filter
        [of "Some (session ''U1'' INSTRUCTOR)" "no_filters\<lparr>lsf_published := Some False\<rparr>"]
      searchLessons_published_filter
        [of "Some (session ''U1'' INSTRUCTOR)" no_filters "\<lparr> sort_field = None, sort_direction = Desc \<rparr>"]
    by (simp add: s n)
qed

text \<open>
  C9. \<open>buildOrderBy\<close> orders by price or by title when asked to, and by the creation
  date for every other field, requested or absent: the type's \<open>purchaseCount\<close> and
  \<open>averageRating\<close> and the router's \<open>rating\<close> and \<open>purchases\<close> among them. The
  direction is the requested one in every case, and the search query carries the
  resulting order.
\<close>

theorem buildOrderBy_fallback:
  "(sort_field sortOpts \<noteq> Some ''createdAt'' \<and> sort_field sortOpts \<noteq> Some ''price'' \<and>
    sort_field sortOpts \<noteq> Some ''title''
      \<longrightarrow> buildOrderBy sortOpts = (''createdAt'', sort_direction sortOpts))
   \<and> (sort_field sortOpts = Some ''createdAt''
      \<longrightarrow> buildOrderBy sortOpts = (''createdAt'', sort_direction sortOpts))
   \<and> (sort_field sortOpts = Some ''price''
      \<longrightarrow> buildOrderBy sortOpts = (''price'', sort_direction sortOpts))
   \<and> (sort_field sortOpts = Some ''title''
      \<longrightarrow> buildOrderBy sortOpts = (''title'', sort_direction sortOpts))
   \<and> snd (buildOrderBy sortOpts) = sort_direction sortOpts
   \<and> buildOrderBy \<lparr> sort_field = Some ''purchaseCount'', sort_direction = d \<rparr> = (''createdAt'', d)
   \<and> buildOrderBy \<lparr> sort_field = Some ''averageRating'', sort_direction = d \<rparr> = (''createdAt'', d)
   \<and> buildOrderBy (sortOptions (Some ''rating'') (Some d)) = (''createdAt'', d)
   \<and> buildOrderBy (sortOptions (Some ''purchases'') (Some d)) = (''createdAt'', d)
   \<and> buildOrderBy (sortOptions (Some ''created'') (Some d)) = (''createdAt'', d)
   \<and> buildOrderBy (sortOptions (Some ''price'') (Some d)) = (''price'', d)
   \<and> buildOrderBy (sortOptions None (Some d)) = (''createdAt'', d)
   \<and> fm_orderBy (fst (searchLessons filters sortOpts caller)) = buildOrderBy sortOpts"
  by (simp add: buildOrderBy_def sortOptions_def searchLessons_def repository_searchLessons_def)

theorem buildOrderBy_fallback_witness:
  "buildOrderBy \<lparr> sort_field = Some ''rating'', sort_direction = Asc \<rparr> = (''createdAt'', Asc)
   \<and> buildOrderBy \<lparr> sort_field = None, sort_direction = Desc \<rparr> = (''createdAt'', Desc)
   \<and> buildOrderBy \<lparr> sort_field = Some ''price'', sort_direction = Asc \<rparr> = (''price'', Asc)
   \<and> buildOrderBy \<lparr> sort_field = Some ''title'', sort_direction = Desc \<rparr> = (''title'', Desc)
   \<and> buildOrderBy \<lparr> sort_field = Some ''createdAt'', sort_direction = Asc \<rparr> = (''createdAt'', Asc)"
  using
    buildOrderBy_fallback [of "\<lparr> sort_field = Some ''rating'', sort_direction = Asc \<rparr>"]
    buildOrderBy_fallback [of "\<lparr> sort_field = None, sort_direction = Desc \<rparr>"]
    buildOrderBy_fallback [of "\<lparr> sort_field = Some ''price'', sort_direction = Asc \<rparr>"]
    buildOrderBy_fallback [of "\<lparr> sort_field = Some ''title'', sort_direction = Desc \<rparr>"]
    buildOrderBy_fallback [of "\<lparr> sort_field = Some ''createdAt'', sort_direction = Asc \<rparr>"]
  by simp

section \<open>Properties of creation\<close>

lemma requireAuth_rejects:
  assumes "token = None \<or> token = Some [] \<or> (\<exists>t. token = Some t \<and> verifyIdToken t = None)"
  shows "\<exists>m. requireAuth verifyIdToken token = Inl (AppError 401 m None)"
  using assms by (auto simp add: requireAuth_def)

lemma requireAuth_accepts:
  assumes "requireAuth verifyIdToken token = Inr user"
  shows "\<exists>t. token = Some t \<and> verifyIdToken t = Some user"
  using assms by (auto simp add: requireAuth_def split: if_splits option.splits)

lemma validateLessonInput_title:
  assumes "validateLessonInput input = Inr ()"
  shows "\<exists>t. cli_title input = Some t"
  using assms by (cases "cli_title input") (simp_all add: validateLessonInput_def)

text \<open>
  C4. \<open>createLesson\<close> lets the caller through exactly when the role is instructor. A
  student or an administrator never creates a lesson, and gets the permission error
  once the input is valid; an instructor never gets the permission error, and with a
  valid input and a fresh key the lesson is created under the caller's id. An absent
  caller does not reach the service: the route rejects a request without a verified
  token with status 401, and a lesson created through the route belongs to a verified
  instructor.
\<close>

theorem createLesson_instructors_only:
  "(role caller = ADMIN \<or> role caller = STUDENT \<longrightarrow>
      (\<exists>e. createLesson input caller newId db = (Inl e, db)))
   \<and> (role caller \<noteq> INSTRUCTOR \<and> validateLessonInput input = Inr () \<longrightarrow>
      createLesson input caller newId db =
        (Inl (LessonPermissionDeniedError ''create'' (uid caller)), db))
   \<and> (role caller = INSTRUCTOR \<longrightarrow>
      fst (createLesson input caller newId db) \<noteq> Inl (LessonPermissionDeniedError a b))
   \<and> (role caller = INSTRUCTOR \<and> validateLessonInput input = Inr () \<and>
      find (\<lambda>l. lesson_id l = newId) (lessons db) = None \<longrightarrow>
      (\<exists>row. createLesson input caller newId db = (Inr row, db\<lparr>lessons := lessons db @ [row]\<rparr>) \<and>
             lesson_id row = newId \<and> lesson_instructorId row = uid caller \<and>
             \<not> lesson_published row))
   \<and> (fst (createLesson input caller newId db) = Inr created \<longrightarrow> role caller = INSTRUCTOR)
   \<and> (token = None \<or> token = Some [] \<or> (\<exists>t. token = Some t \<and> verifyIdToken t = None) \<longrightarrow>
      (\<exists>m. post_lesson verifyIdToken validateCreateLessonRequest token body newId db =
             (Inl (AppError 401 m None), db)))
   \<and> (fst (post_lesson verifyIdToken validateCreateLessonRequest token body newId db) = Inr created
      \<longrightarrow> (\<exists>t user. token = Some t \<and> verifyIdToken t = Some user \<and> role user = INSTRUCTOR))"
proof -
  have fails: "\<exists>e. createLesson input caller newId db = (Inl e, db)"
    if "role caller \<noteq> INSTRUCTOR"
    using that by (cases "validateLessonInput input") (simp_all add: createLesson_def)
  have denied: "createLesson input caller newId db =
        (Inl (LessonPermissionDeniedError ''create'' (uid caller)), db)"
    if "role caller \<noteq> INSTRUCTOR" and "validateLessonInput input = Inr ()"
    using that by (simp add: createLesson_def)
  have only: "role caller = INSTRUCTOR" if "fst (createLesson input caller newId db) = Inr created"
    using that fails by (cases "role caller = INSTRUCTOR") auto
  have passes: "fst (createLesson input caller newId db) \<noteq> Inl (LessonPermissionDeniedError a b)"
    if "role caller = INSTRUCTOR"
    using that
    by (auto simp add: createLesson_def repository_createLesson_def Let_def
          validateLessonInput_cases validatePrice_def split: sum.splits option.splits if_splits)
  have creates: "\<exists>row. createLesson input caller newId db = (Inr row, db\<lparr>lessons := lessons db @ [row]\<rparr>) \<and>
             lesson_id row = newId \<and> lesson_instructorId row = uid caller \<and> \<not> lesson_published row"
    if "role caller = INSTRUCTOR" and "validateLessonInput input = Inr ()"
      and "find (\<lambda>l. lesson_id l = newId) (lessons db) = None"
    using that validateLessonInput_title [of input]
    by (auto simp add: createLesson_def repository_createLesson_def Let_def)
  have anonymous: "\<exists>m. post_lesson verifyIdToken validateCreateLessonRequest token body newId db =
             (Inl (AppError 401 m None), db)"
    if "token = None \<or> token = Some [] \<or> (\<exists>t. token = Some t \<and> verifyIdToken t = None)"
    using that requireAuth_rejects [of token verifyIdToken] by (auto simp add: post_lesson_def)
  have route: "\<exists>t user. token = Some t \<and> verifyIdToken t = Some user \<and> role user = INSTRUCTOR"
    if r: "fst (post_lesson verifyIdToken validateCreateLessonRequest token body newId db) = Inr created"
  proof (cases "requireAuth verifyIdToken token")
    case (Inl e)
    with r show ?thesis by (simp add: post_lesson_def)
  next
    case (Inr user)
    then have v: "\<exists>t. token = Some t \<and> verifyIdToken t = Some user" by (rule requireAuth_accepts)
    have "role user = INSTRUCTOR"
      using r Inr
      by (auto simp add: post_lesson_def requireRole_def
            split: sum.splits if_splits)
    with v show ?thesis by blast
  qed
  have roles: "role caller \<noteq> INSTRUCTOR" if "role caller = ADMIN \<or> role caller = STUDENT"
    using that by auto
  from fails denied only passes creates anonymous route roles show ?thesis by blast
qed

theorem createLesson_instructors_only_witness:
  "validateLessonInput (input_ok 2999) = Inr ()
   \<and> find (\<lambda>l. lesson_id l = ''L3'') (lessons db_empty) = None
   \<and> createLesson (input_ok 2999) (session ''A1'' ADMIN) ''L3'' db_empty =
       (Inl (LessonPermissionDeniedError ''create'' ''A1''), db_empty)
   \<and> createLesson (input_ok 2999) (session ''U2'' STUDENT) ''L3'' db_empty =
       (Inl (LessonPermissionDeniedError ''create'' ''U2''), db_empty)
   \<and> (\<exists>row. fst (createLesson (input_ok 2999) (session ''U1'' INSTRUCTOR) ''L3'' db_empty) = Inr row
         \<and> lesson_instructorId row = ''U1'')
   \<and> (\<exists>m. post_lesson (\<lambda>t. None) Inr None (input_ok 2999) ''L3'' db_empty =
         (Inl (AppError 401 m None), db_empty))"
proof -
  have v: "validateLessonInput (input_ok 2999) = Inr ()"
    by (simp add: validateLessonInput_input_ok validatePrice_def)
  have f: "find (\<lambda>l. lesson_id l = ''L3'') (lessons db_empty) = None"
    by (simp add: example_defs)
  have s: "uid (session u r) = u" "role (session u r) = r" for u r by (simp_all add: session_def)
  show ?thesis
    using v f
      createLesson_instructors_only
        [of "session ''A1'' ADMIN" "input_ok 2999" "''L3''" db_empty "''create''" "''A1''" lesson_L1
            None "\<lambda>t. None" Inr "input_ok 2999"]
      createLesson_instructors_only
        [of "session ''U2'' STUDENT" "input_ok 2999" "''L3''" db_empty "''create''" "''U2''" lesson_L1
            None "\<lambda>t. None" Inr "input_ok 2999"]
      createLesson_instructors_only
        [of "session ''U1'' INSTRUCTOR" "input_ok 2999" "''L3''" db_empty "''create''" "''U1''" lesson_L1
            None "\<lambda>t. None" Inr "input_ok 2999"]
    by (auto simp add: s)
qed

end
